theory Spec2Isabelle
  imports Main
begin

section \<open>Yale Smart Alarm: the alarm control panel entity\<close>

text \<open>
  A shallow embedding of \<^verbatim>\<open>homeassistant/components/yale_smart_alarm/alarm_control_panel.py\<close>.

  A Python \<^verbatim>\<open>str\<close> is a sequence of code points; the model keeps the code points below
  256, one \<^typ>\<open>char\<close> each, so a \<^verbatim>\<open>str\<close> is a \<^typ>\<open>string\<close> and \<^verbatim>\<open>==\<close> on strings is
  equality of lists. An optional argument \<^verbatim>\<open>str | None\<close> is a \<^typ>\<open>string option\<close>.
\<close>

subsection \<open>Exceptions\<close>

text \<open>
  An exception raised by the vendor client: its class and the text \<^verbatim>\<open>str(error)\<close> gives.
\<close>

datatype py_exception = PyException (exc_class: string) (exc_str: string)

text \<open>
  What a method of the entity can raise. \<^verbatim>\<open>HomeAssistantError\<close> keeps its positional
  arguments and the three keyword arguments the source passes; a dictionary literal is the
  list of its items in the order written. \<open>KeyError\<close> carries the missing key,
  \<open>UnboundLocalError\<close> the name of the local variable read before assignment, and \<open>Uncaught\<close>
  is an exception of the vendor call that no \<^verbatim>\<open>except\<close> clause catches.
\<close>

datatype error =
    HomeAssistantError
      (args: "string list")
      (translation_domain: "string option")
      (translation_key: "string option")
      (translation_placeholders: "(string \<times> string) list option")
  | KeyError string
  | UnboundLocalError string
  | Uncaught py_exception

subsection \<open>Imported constants\<close>

text \<open>
  The module imports \<^verbatim>\<open>YALE_STATE_ARM_FULL\<close>, \<^verbatim>\<open>YALE_STATE_ARM_PARTIAL\<close> and
  \<^verbatim>\<open>YALE_STATE_DISARM\<close> from the vendor library, \<^verbatim>\<open>CONF_NAME\<close> from the platform, and
  \<^verbatim>\<open>DOMAIN\<close>, \<^verbatim>\<open>STATE_MAP\<close>, \<^verbatim>\<open>YALE_ALL_ERRORS\<close>, \<^verbatim>\<open>CONF_CODE\<close> and \<^verbatim>\<open>DEFAULT_CODE\<close> from
  the integration's \<^verbatim>\<open>const\<close> module (whose \<^verbatim>\<open>CONF_CODE\<close> shadows the platform's, being
  imported later). None of these modules is part of the file, so the constants are
  parameters of every definition below. \<open>STATE_MAP\<close> is a dictionary from vendor keywords
  to platform states, of any type \<open>'st\<close>; \<open>YALE_ALL_ERRORS\<close> is a tuple of exception
  classes, modelled by the test \<^verbatim>\<open>isinstance(error, YALE_ALL_ERRORS)\<close> that the
  \<^verbatim>\<open>except\<close> clause performs.
\<close>

record 'st yale_const =
  YALE_STATE_ARM_FULL :: string
  YALE_STATE_ARM_PARTIAL :: string
  YALE_STATE_DISARM :: string
  CONF_NAME :: string
  CONF_CODE :: string
  DEFAULT_CODE :: string
  DOMAIN :: string
  STATE_MAP :: "string \<rightharpoonup> 'st"
  YALE_ALL_ERRORS :: "py_exception \<Rightarrow> bool"

text \<open>
  Modelled from the spec: the platform's \<^verbatim>\<open>CodeFormat\<close> enumeration,
  \<^verbatim>\<open>AlarmControlPanelEntityFeature\<close> flags and alarm states are declared in
  \<^verbatim>\<open>homeassistant.components.alarm_control_panel\<close>, which is not part of the file. The
  spec names the code formats NUMBER and TEXT, the features arm-home and arm-away among
  the platform's features, and the states disarmed, armed_home and armed_away. A
  combination of feature flags is the set of its flags, and \<^verbatim>\<open>|\<close> is union.
\<close>

datatype CodeFormat = NUMBER | TEXT

datatype AlarmControlPanelEntityFeature =
  ARM_HOME | ARM_AWAY | ARM_NIGHT | TRIGGER | ARM_CUSTOM_BYPASS | ARM_VACATION

datatype AlarmControlPanelState = DISARMED | ARMED_HOME | ARMED_AWAY

subsection \<open>The collaborators\<close>

text \<open>
  A blocking call of the vendor client either returns its success indicator or raises.
  The source only tests the returned value for truth (\<^verbatim>\<open>if alarm_state:\<close>), so the
  returned value is its truth value.
\<close>

datatype vendor_result = Returned bool | Raised py_exception

record yale_client =
  arm_full :: vendor_result
  arm_partial :: vendor_result
  disarm :: vendor_result

datatype vendor_call = ArmFull | ArmPartial | Disarm

fun invoke :: "yale_client \<Rightarrow> vendor_call \<Rightarrow> vendor_result" where
  "invoke y ArmFull = arm_full y"
| "invoke y ArmPartial = arm_partial y"
| "invoke y Disarm = disarm y"

text \<open>
  Everything the entity shares with the rest of the platform: the coordinator's
  \<^verbatim>\<open>data\<close> dictionary, the configuration entry (\<^verbatim>\<open>entry.data\<close> and \<^verbatim>\<open>entry.entry_id\<close>), the
  connected client \<^verbatim>\<open>coordinator.yale\<close> (taken to be present, as the source's assertion
  for the type checker says), and what \<^verbatim>\<open>super().available\<close> answers. Two fields record
  what the entity does to its collaborators: \<open>vendor_calls\<close> lists the vendor calls handed
  to \<^verbatim>\<open>hass.async_add_executor_job\<close>, in order, and \<open>ha_state_writes\<close> lists the calls of
  \<^verbatim>\<open>async_write_ha_state\<close>, each with the value of \<^verbatim>\<open>coordinator.data["alarm"]\<close> it finds.
\<close>

record world =
  data :: "string \<rightharpoonup> string"
  entry_data :: "string \<rightharpoonup> string"
  entry_id :: string
  yale :: yale_client
  super_available :: bool
  vendor_calls :: "vendor_call list"
  ha_state_writes :: "string option list"

definition async_add_executor_job :: "vendor_call \<Rightarrow> world \<Rightarrow> vendor_result \<times> world" where
  "async_add_executor_job c w =
     (invoke (yale w) c, w\<lparr>vendor_calls := vendor_calls w @ [c]\<rparr>)"

definition async_write_ha_state :: "world \<Rightarrow> world" where
  "async_write_ha_state w = w\<lparr>ha_state_writes := ha_state_writes w @ [data w ''alarm'']\<rparr>"

subsection \<open>The entity\<close>

text \<open>
  The instance attributes \<^verbatim>\<open>_attr_unique_id\<close> and \<^verbatim>\<open>_code\<close> set by \<^verbatim>\<open>__init__\<close>, and the
  class attributes.
\<close>

record YaleAlarmDevice =
  attr_unique_id :: string
  self_code :: string

definition attr_code_arm_required :: bool where
  "attr_code_arm_required = False"

definition attr_supported_features :: "AlarmControlPanelEntityFeature set" where
  "attr_supported_features = {ARM_HOME} \<union> {ARM_AWAY}"

definition YaleAlarmDevice_init :: "'st yale_const \<Rightarrow> world \<Rightarrow> YaleAlarmDevice" where
  "YaleAlarmDevice_init K w =
     \<lparr>attr_unique_id = entry_id w,
      self_code = (case entry_data w (CONF_CODE K) of
                     Some c \<Rightarrow> c
                   | None \<Rightarrow> DEFAULT_CODE K)\<rparr>"

text \<open>
  \<^verbatim>\<open>str.isdigit\<close>: false on the empty string, else true when every character is a digit.
  Among the code points below 256 the digits are \<^verbatim>\<open>0\<close> to \<^verbatim>\<open>9\<close> and the superscripts
  one (185), two (178) and three (179).
\<close>

definition isdigit_char :: "char \<Rightarrow> bool" where
  "isdigit_char c =
     (let n = (of_char c :: nat)
      in (48 \<le> n \<and> n \<le> 57) \<or> n = 178 \<or> n = 179 \<or> n = 185)"

definition isdigit :: "string \<Rightarrow> bool" where
  "isdigit s = (s \<noteq> [] \<and> list_all isdigit_char s)"

definition code_format :: "YaleAlarmDevice \<Rightarrow> CodeFormat" where
  "code_format self = (if isdigit (self_code self) then NUMBER else TEXT)"

definition async_validate_code :: "YaleAlarmDevice \<Rightarrow> string option \<Rightarrow> error + unit" where
  "async_validate_code self code =
     (if code \<noteq> Some (self_code self)
      then Inl (HomeAssistantError [''Invalid code''] None None None)
      else Inr ())"

text \<open>
  The \<^verbatim>\<open>try\<close> statement of \<^verbatim>\<open>async_set_alarm\<close>: the \<^verbatim>\<open>if\<close>/\<^verbatim>\<open>elif\<close> chain assigns
  \<^verbatim>\<open>alarm_state\<close> in three branches and has no \<^verbatim>\<open>else\<close>. The value is \<open>Inl e\<close> when the
  vendor call raised \<open>e\<close>, \<open>Inr None\<close> when no branch was taken and \<^verbatim>\<open>alarm_state\<close> is
  still unassigned, and \<open>Inr (Some b)\<close> when it was assigned \<open>b\<close>.
\<close>

fun assign_alarm_state :: "vendor_result \<times> world \<Rightarrow> (py_exception + bool option) \<times> world" where
  "assign_alarm_state (Returned b, w) = (Inr (Some b), w)"
| "assign_alarm_state (Raised e, w) = (Inl e, w)"

definition set_alarm_try ::
  "'st yale_const \<Rightarrow> string \<Rightarrow> world \<Rightarrow> (py_exception + bool option) \<times> world" where
  "set_alarm_try K command w =
     (if command = YALE_STATE_ARM_FULL K
      then assign_alarm_state (async_add_executor_job ArmFull w)
      else if command = YALE_STATE_ARM_PARTIAL K
      then assign_alarm_state (async_add_executor_job ArmPartial w)
      else if command = YALE_STATE_DISARM K
      then assign_alarm_state (async_add_executor_job Disarm w)
      else (Inr None, w))"

definition async_set_alarm :: "'st yale_const \<Rightarrow> string \<Rightarrow> world \<Rightarrow> (error + unit) \<times> world" where
  "async_set_alarm K command w =
     (case set_alarm_try K command w of
        (Inl e, w') \<Rightarrow>
          (if YALE_ALL_ERRORS K e
           then (case entry_data w' (CONF_NAME K) of
                   None \<Rightarrow> (Inl (KeyError (CONF_NAME K)), w')
                 | Some name \<Rightarrow>
                     (Inl (HomeAssistantError [] (Some (DOMAIN K)) (Some ''set_alarm'')
                             (Some [(''name'', name), (''error'', exc_str e)])), w'))
           else (Inl (Uncaught e), w'))
      | (Inr None, w') \<Rightarrow> (Inl (UnboundLocalError ''alarm_state''), w')
      | (Inr (Some alarm_state), w') \<Rightarrow>
          (if alarm_state
           then (Inr (), async_write_ha_state (w'\<lparr>data := (data w')(''alarm'' \<mapsto> command)\<rparr>))
           else (Inl (HomeAssistantError [] (Some (DOMAIN K)) (Some ''could_not_change_alarm'')
                        None), w')))"

definition async_alarm_disarm ::
  "'st yale_const \<Rightarrow> YaleAlarmDevice \<Rightarrow> string option \<Rightarrow> world \<Rightarrow> (error + unit) \<times> world" where
  "async_alarm_disarm K self code w =
     (case async_validate_code self code of
        Inl err \<Rightarrow> (Inl err, w)
      | Inr _ \<Rightarrow> async_set_alarm K (YALE_STATE_DISARM K) w)"

definition async_alarm_arm_home ::
  "'st yale_const \<Rightarrow> YaleAlarmDevice \<Rightarrow> string option \<Rightarrow> world \<Rightarrow> (error + unit) \<times> world" where
  "async_alarm_arm_home K self code w = async_set_alarm K (YALE_STATE_ARM_PARTIAL K) w"

definition async_alarm_arm_away ::
  "'st yale_const \<Rightarrow> YaleAlarmDevice \<Rightarrow> string option \<Rightarrow> world \<Rightarrow> (error + unit) \<times> world" where
  "async_alarm_arm_away K self code w = async_set_alarm K (YALE_STATE_ARM_FULL K) w"

definition available :: "'st yale_const \<Rightarrow> world \<Rightarrow> error + bool" where
  "available K w =
     (case data w ''alarm'' of
        None \<Rightarrow> Inl (KeyError ''alarm'')
      | Some k \<Rightarrow> (if STATE_MAP K k = None then Inr False else Inr (super_available w)))"

definition state :: "'st yale_const \<Rightarrow> world \<Rightarrow> error + 'st option" where
  "state K w =
     (case data w ''alarm'' of
        None \<Rightarrow> Inl (KeyError ''alarm'')
      | Some k \<Rightarrow> Inr (STATE_MAP K k))"

subsection \<open>The spec's test for a numeric code\<close>

text \<open>
  The spec's words for the test of \<open>code_format\<close>, "the stored code consists entirely of
  digits": every character of the code is a digit. It is compared below with \<open>isdigit\<close>,
  the test the source performs.
\<close>

definition consists_entirely_of_digits :: "string \<Rightarrow> bool" where
  "consists_entirely_of_digits s = list_all isdigit_char s"

subsection \<open>A sample installation\<close>

text \<open>
  Concrete values on which the theorems below are instantiated: one choice of the imported
  constants, a coordinator whose entry is named and stores the code 9999, the entity built
  from it, and three vendor clients, one whose calls all succeed, one whose calls all
  return false and one whose calls all raise a time-out.
\<close>

definition sample_const :: "AlarmControlPanelState yale_const" where
  "sample_const =
     \<lparr>YALE_STATE_ARM_FULL = ''arm'',
      YALE_STATE_ARM_PARTIAL = ''home'',
      YALE_STATE_DISARM = ''disarm'',
      CONF_NAME = ''name'',
      CONF_CODE = ''code'',
      DEFAULT_CODE = ''1234'',
      DOMAIN = ''yale_smart_alarm'',
      STATE_MAP = [''disarm'' \<mapsto> DISARMED, ''home'' \<mapsto> ARMED_HOME, ''arm'' \<mapsto> ARMED_AWAY],
      YALE_ALL_ERRORS = (\<lambda>e. exc_class e \<in> set [''AuthenticationError'', ''ConnectionError'',
                                                ''TimeoutError'', ''UnknownError''])\<rparr>"

definition sample_world :: "yale_client \<Rightarrow> world" where
  "sample_world y =
     \<lparr>data = [''alarm'' \<mapsto> ''arm''],
      entry_data = [''name'' \<mapsto> ''Yale Smart Alarm'', ''code'' \<mapsto> ''9999''],
      entry_id = ''entry1'',
      yale = y,
      super_available = True,
      vendor_calls = [],
      ha_state_writes = []\<rparr>"

definition sample_device :: YaleAlarmDevice where
  "sample_device = \<lparr>attr_unique_id = ''entry1'', self_code = ''9999''\<rparr>"

definition all_succeed :: yale_client where
  "all_succeed =
     \<lparr>arm_full = Returned True, arm_partial = Returned True, disarm = Returned True\<rparr>"

definition all_rejected :: yale_client where
  "all_rejected =
     \<lparr>arm_full = Returned False, arm_partial = Returned False, disarm = Returned False\<rparr>"

definition all_time_out :: yale_client where
  "all_time_out =
     \<lparr>arm_full = Raised (PyException ''TimeoutError'' ''timed out''),
      arm_partial = Raised (PyException ''TimeoutError'' ''timed out''),
      disarm = Raised (PyException ''TimeoutError'' ''timed out'')\<rparr>"

lemmas sample_defs =
  sample_const_def sample_world_def sample_device_def all_succeed_def all_rejected_def
  all_time_out_def

lemmas model_defs =
  async_alarm_disarm_def async_alarm_arm_home_def async_alarm_arm_away_def
  async_validate_code_def async_set_alarm_def set_alarm_try_def async_add_executor_job_def
  async_write_ha_state_def

lemma sample_device_init:
  "YaleAlarmDevice_init sample_const (sample_world y) = sample_device"
  by (simp add: YaleAlarmDevice_init_def sample_defs)

section \<open>The dispatcher, step by step\<close>

text \<open>What the \<^verbatim>\<open>try\<close> statement does for each of the three keywords.\<close>

lemma try_arm_full:
  "set_alarm_try K (YALE_STATE_ARM_FULL K) w
     = assign_alarm_state (arm_full (yale w), w\<lparr>vendor_calls := vendor_calls w @ [ArmFull]\<rparr>)"
  by (simp add: set_alarm_try_def async_add_executor_job_def)

lemma try_arm_partial:
  "YALE_STATE_ARM_PARTIAL K \<noteq> YALE_STATE_ARM_FULL K \<Longrightarrow>
   set_alarm_try K (YALE_STATE_ARM_PARTIAL K) w
     = assign_alarm_state
         (arm_partial (yale w), w\<lparr>vendor_calls := vendor_calls w @ [ArmPartial]\<rparr>)"
  by (simp add: set_alarm_try_def async_add_executor_job_def)

lemma try_disarm:
  "YALE_STATE_DISARM K \<noteq> YALE_STATE_ARM_FULL K \<Longrightarrow>
   YALE_STATE_DISARM K \<noteq> YALE_STATE_ARM_PARTIAL K \<Longrightarrow>
   set_alarm_try K (YALE_STATE_DISARM K) w
     = assign_alarm_state (disarm (yale w), w\<lparr>vendor_calls := vendor_calls w @ [Disarm]\<rparr>)"
  by (simp add: set_alarm_try_def async_add_executor_job_def)

text \<open>
  The dispatcher makes no vendor call of its own, so the call it records, if any, is the
  one of the \<^verbatim>\<open>try\<close> statement, and that call decides the statement's outcome.
\<close>

lemma vendor_calls_set_alarm:
  "vendor_calls (snd (async_set_alarm K command w))
     = vendor_calls (snd (set_alarm_try K command w))"
  by (cases "set_alarm_try K command w")
     (auto simp: async_set_alarm_def async_write_ha_state_def
           split: sum.splits option.splits)

lemma vendor_calls_try:
  assumes "vendor_calls (snd (set_alarm_try K command w)) = vendor_calls w @ [c]"
  shows "set_alarm_try K command w
           = assign_alarm_state (invoke (yale w) c, w\<lparr>vendor_calls := vendor_calls w @ [c]\<rparr>)"
  using assms
  by (cases "invoke (yale w) c"; cases "arm_full (yale w)"; cases "arm_partial (yale w)";
      cases "disarm (yale w)")
     (auto simp: set_alarm_try_def async_add_executor_job_def split: if_splits)

lemma set_alarm_returned:
  assumes "set_alarm_try K command w = (Inr (Some True), w1)"
  shows "async_set_alarm K command w
           = (Inr (), w1\<lparr>data := (data w1)(''alarm'' \<mapsto> command),
                         ha_state_writes := ha_state_writes w1 @ [Some command]\<rparr>)"
  using assms by (simp add: async_set_alarm_def async_write_ha_state_def)

lemma set_alarm_not_invalid_code:
  "fst (async_set_alarm K command w)
     \<noteq> Inl (HomeAssistantError [''Invalid code''] None None None)"
  by (cases "set_alarm_try K command w")
     (auto simp: async_set_alarm_def split: sum.splits option.splits)

lemma try_unassigned_iff:
  "fst (set_alarm_try K command w) = Inr None
     \<longleftrightarrow> command \<notin> {YALE_STATE_ARM_FULL K, YALE_STATE_ARM_PARTIAL K, YALE_STATE_DISARM K}"
  by (cases "arm_full (yale w)"; cases "arm_partial (yale w)"; cases "disarm (yale w)")
     (simp_all add: set_alarm_try_def async_add_executor_job_def)

lemma set_alarm_unbound_iff:
  "fst (async_set_alarm K command w) = Inl (UnboundLocalError ''alarm_state'')
     \<longleftrightarrow> fst (set_alarm_try K command w) = Inr None"
  by (cases "set_alarm_try K command w")
     (auto simp: async_set_alarm_def split: sum.splits option.splits)

section \<open>Commands\<close>

text \<open>
  Claim C1. For every supplied code, absent or present, that is not exactly the stored
  code, \<open>async_alarm_disarm\<close> raises the error "Invalid code" and leaves the world as it
  found it: no vendor call is recorded, so the vendor's disarm is not invoked, and
  \<^verbatim>\<open>coordinator.data\<close>, its \<^verbatim>\<open>"alarm"\<close> field included, is unchanged. The comparison is
  equality of strings: the sample entity, whose code is 9999, rejects no code at all, the
  code followed by a space, and a code in another case.
\<close>

theorem disarm_invalid_code:
  assumes "code \<noteq> Some (self_code self)"
  shows "async_alarm_disarm K self code w
           = (Inl (HomeAssistantError [''Invalid code''] None None None), w)
         \<and> vendor_calls (snd (async_alarm_disarm K self code w)) = vendor_calls w
         \<and> data (snd (async_alarm_disarm K self code w)) = data w"
  using assms by (simp add: async_alarm_disarm_def async_validate_code_def)

theorem disarm_invalid_code_witness:
  "None \<noteq> Some (self_code sample_device)
   \<and> Some ''9999 '' \<noteq> Some (self_code sample_device)
   \<and> Some ''AbC'' \<noteq> Some (self_code (sample_device\<lparr>self_code := ''abc''\<rparr>))
   \<and> async_alarm_disarm sample_const sample_device None (sample_world all_succeed)
       = (Inl (HomeAssistantError [''Invalid code''] None None None), sample_world all_succeed)
   \<and> async_alarm_disarm sample_const sample_device (Some ''9999 '') (sample_world all_succeed)
       = (Inl (HomeAssistantError [''Invalid code''] None None None), sample_world all_succeed)
   \<and> async_alarm_disarm sample_const (sample_device\<lparr>self_code := ''abc''\<rparr>) (Some ''AbC'')
         (sample_world all_succeed)
       = (Inl (HomeAssistantError [''Invalid code''] None None None), sample_world all_succeed)"
  using disarm_invalid_code [of None sample_device sample_const "sample_world all_succeed"]
        disarm_invalid_code [of "Some ''9999 ''" sample_device sample_const
                                "sample_world all_succeed"]
        disarm_invalid_code [of "Some ''AbC''" "sample_device\<lparr>self_code := ''abc''\<rparr>"
                                sample_const "sample_world all_succeed"]
  by (simp add: sample_device_def)

text \<open>
  Claim C2. Let the three vendor keywords be pairwise distinct, as they are in the vendor
  library. If the vendor's \<^verbatim>\<open>disarm\<close> returns true, \<open>async_alarm_disarm\<close> with the stored
  code returns normally, has made that one vendor call, has overwritten
  \<^verbatim>\<open>coordinator.data["alarm"]\<close> with the disarm keyword and has then asked the platform once
  to write the state, which finds the new keyword; \<open>state\<close> read afterwards is the entry of
  \<open>STATE_MAP\<close> for the disarm keyword. The same holds of \<open>async_alarm_arm_home\<close> with the
  vendor's \<^verbatim>\<open>arm_partial\<close> and the partial-arm keyword, and of \<open>async_alarm_arm_away\<close> with
  \<^verbatim>\<open>arm_full\<close> and the full-arm keyword, whatever code they are given.
\<close>

theorem command_success:
  assumes "distinct [YALE_STATE_ARM_FULL K, YALE_STATE_ARM_PARTIAL K, YALE_STATE_DISARM K]"
  shows
    "(disarm (yale w) = Returned True \<longrightarrow>
        (case async_alarm_disarm K self (Some (self_code self)) w of (r, w') \<Rightarrow>
           r = Inr ()
           \<and> data w' = (data w)(''alarm'' \<mapsto> YALE_STATE_DISARM K)
           \<and> ha_state_writes w' = ha_state_writes w @ [Some (YALE_STATE_DISARM K)]
           \<and> vendor_calls w' = vendor_calls w @ [Disarm]
           \<and> state K w' = Inr (STATE_MAP K (YALE_STATE_DISARM K))))
     \<and> (arm_partial (yale w) = Returned True \<longrightarrow>
        (case async_alarm_arm_home K self code w of (r, w') \<Rightarrow>
           r = Inr ()
           \<and> data w' = (data w)(''alarm'' \<mapsto> YALE_STATE_ARM_PARTIAL K)
           \<and> ha_state_writes w' = ha_state_writes w @ [Some (YALE_STATE_ARM_PARTIAL K)]
           \<and> vendor_calls w' = vendor_calls w @ [ArmPartial]
           \<and> state K w' = Inr (STATE_MAP K (YALE_STATE_ARM_PARTIAL K))))
     \<and> (arm_full (yale w) = Returned True \<longrightarrow>
        (case async_alarm_arm_away K self code w of (r, w') \<Rightarrow>
           r = Inr ()
           \<and> data w' = (data w)(''alarm'' \<mapsto> YALE_STATE_ARM_FULL K)
           \<and> ha_state_writes w' = ha_state_writes w @ [Some (YALE_STATE_ARM_FULL K)]
           \<and> vendor_calls w' = vendor_calls w @ [ArmFull]
           \<and> state K w' = Inr (STATE_MAP K (YALE_STATE_ARM_FULL K))))"
proof (intro conjI impI)
  assume ok: "disarm (yale w) = Returned True"
  from assms have "YALE_STATE_DISARM K \<noteq> YALE_STATE_ARM_FULL K"
    and "YALE_STATE_DISARM K \<noteq> YALE_STATE_ARM_PARTIAL K" by auto
  then have "set_alarm_try K (YALE_STATE_DISARM K) w
               = (Inr (Some True), w\<lparr>vendor_calls := vendor_calls w @ [Disarm]\<rparr>)"
    using ok by (simp add: try_disarm)
  from set_alarm_returned [OF this]
  show "case async_alarm_disarm K self (Some (self_code self)) w of (r, w') \<Rightarrow>
           r = Inr ()
           \<and> data w' = (data w)(''alarm'' \<mapsto> YALE_STATE_DISARM K)
           \<and> ha_state_writes w' = ha_state_writes w @ [Some (YALE_STATE_DISARM K)]
           \<and> vendor_calls w' = vendor_calls w @ [Disarm]
           \<and> state K w' = Inr (STATE_MAP K (YALE_STATE_DISARM K))"
    by (simp add: async_alarm_disarm_def async_validate_code_def state_def)
next
  assume ok: "arm_partial (yale w) = Returned True"
  from assms have "YALE_STATE_ARM_PARTIAL K \<noteq> YALE_STATE_ARM_FULL K" by auto
  then have "set_alarm_try K (YALE_STATE_ARM_PARTIAL K) w
               = (Inr (Some True), w\<lparr>vendor_calls := vendor_calls w @ [ArmPartial]\<rparr>)"
    using ok by (simp add: try_arm_partial)
  from set_alarm_returned [OF this]
  show "case async_alarm_arm_home K self code w of (r, w') \<Rightarrow>
           r = Inr ()
           \<and> data w' = (data w)(''alarm'' \<mapsto> YALE_STATE_ARM_PARTIAL K)
           \<and> ha_state_writes w' = ha_state_writes w @ [Some (YALE_STATE_ARM_PARTIAL K)]
           \<and> vendor_calls w' = vendor_calls w @ [ArmPartial]
           \<and> state K w' = Inr (STATE_MAP K (YALE_STATE_ARM_PARTIAL K))"
    by (simp add: async_alarm_arm_home_def state_def)
next
  assume ok: "arm_full (yale w) = Returned True"
  then have "set_alarm_try K (YALE_STATE_ARM_FULL K) w
               = (Inr (Some True), w\<lparr>vendor_calls := vendor_calls w @ [ArmFull]\<rparr>)"
    by (simp add: try_arm_full)
  from set_alarm_returned [OF this]
  show "case async_alarm_arm_away K self code w of (r, w') \<Rightarrow>
           r = Inr ()
           \<and> data w' = (data w)(''alarm'' \<mapsto> YALE_STATE_ARM_FULL K)
           \<and> ha_state_writes w' = ha_state_writes w @ [Some (YALE_STATE_ARM_FULL K)]
           \<and> vendor_calls w' = vendor_calls w @ [ArmFull]
           \<and> state K w' = Inr (STATE_MAP K (YALE_STATE_ARM_FULL K))"
    by (simp add: async_alarm_arm_away_def state_def)
qed

theorem command_success_witness:
  "distinct [YALE_STATE_ARM_FULL sample_const, YALE_STATE_ARM_PARTIAL sample_const,
             YALE_STATE_DISARM sample_const]
   \<and> disarm (yale (sample_world all_succeed)) = Returned True
   \<and> arm_partial (yale (sample_world all_succeed)) = Returned True
   \<and> arm_full (yale (sample_world all_succeed)) = Returned True
   \<and> fst (async_alarm_disarm sample_const sample_device (Some ''9999'')
            (sample_world all_succeed)) = Inr ()
   \<and> state sample_const
       (snd (async_alarm_disarm sample_const sample_device (Some ''9999'')
               (sample_world all_succeed))) = Inr (Some DISARMED)
   \<and> state sample_const
       (snd (async_alarm_arm_home sample_const sample_device None (sample_world all_succeed)))
       = Inr (Some ARMED_HOME)
   \<and> state sample_const
       (snd (async_alarm_arm_away sample_const sample_device None (sample_world all_succeed)))
       = Inr (Some ARMED_AWAY)"
  using command_success [of sample_const "sample_world all_succeed" sample_device None]
  by (simp add: sample_defs split: prod.splits)

text \<open>
  Claim C3. Take any dispatch, whatever the command: if the vendor call it makes (the call
  \<open>c\<close> it adds to the record) raises an error \<open>e\<close> that is one of \<open>YALE_ALL_ERRORS\<close>, then
  \<^verbatim>\<open>coordinator.data\<close> is as before the call, and, the entry having a name, the dispatcher
  raises the \<^verbatim>\<open>set_alarm\<close> error of the integration's domain whose placeholders carry that
  name and the text of \<open>e\<close>.
\<close>

theorem vendor_error_surfaced:
  assumes "vendor_calls (snd (async_set_alarm K command w)) = vendor_calls w @ [c]"
    and "invoke (yale w) c = Raised e"
    and "YALE_ALL_ERRORS K e"
  shows "data (snd (async_set_alarm K command w)) = data w
         \<and> (\<forall>name. entry_data w (CONF_NAME K) = Some name \<longrightarrow>
               fst (async_set_alarm K command w)
                 = Inl (HomeAssistantError [] (Some (DOMAIN K)) (Some ''set_alarm'')
                          (Some [(''name'', name), (''error'', exc_str e)])))"
proof -
  from assms(1) have "vendor_calls (snd (set_alarm_try K command w)) = vendor_calls w @ [c]"
    by (simp add: vendor_calls_set_alarm)
  from vendor_calls_try [OF this] assms(2)
  have "set_alarm_try K command w = (Inl e, w\<lparr>vendor_calls := vendor_calls w @ [c]\<rparr>)"
    by simp
  then show ?thesis
    using assms(3) by (simp add: async_set_alarm_def split: option.splits)
qed

theorem vendor_error_surfaced_witness:
  "vendor_calls (snd (async_set_alarm sample_const ''disarm'' (sample_world all_time_out)))
     = vendor_calls (sample_world all_time_out) @ [Disarm]
   \<and> invoke (yale (sample_world all_time_out)) Disarm
       = Raised (PyException ''TimeoutError'' ''timed out'')
   \<and> YALE_ALL_ERRORS sample_const (PyException ''TimeoutError'' ''timed out'')
   \<and> entry_data (sample_world all_time_out) (CONF_NAME sample_const)
       = Some ''Yale Smart Alarm''
   \<and> data (snd (async_set_alarm sample_const ''disarm'' (sample_world all_time_out)))
       = data (sample_world all_time_out)
   \<and> fst (async_set_alarm sample_const ''disarm'' (sample_world all_time_out))
       = Inl (HomeAssistantError [] (Some ''yale_smart_alarm'') (Some ''set_alarm'')
                (Some [(''name'', ''Yale Smart Alarm''), (''error'', ''timed out'')]))"
proof -
  have h1: "vendor_calls (snd (async_set_alarm sample_const ''disarm''
                                 (sample_world all_time_out)))
              = vendor_calls (sample_world all_time_out) @ [Disarm]"
    by (simp add: sample_defs model_defs)
  have h2: "invoke (yale (sample_world all_time_out)) Disarm
              = Raised (PyException ''TimeoutError'' ''timed out'')"
    by (simp add: sample_defs)
  have h3: "YALE_ALL_ERRORS sample_const (PyException ''TimeoutError'' ''timed out'')"
    by (simp add: sample_defs)
  have h4: "entry_data (sample_world all_time_out) (CONF_NAME sample_const)
              = Some ''Yale Smart Alarm''"
    by (simp add: sample_defs)
  from vendor_error_surfaced [OF h1 h2 h3] h4
  have "data (snd (async_set_alarm sample_const ''disarm'' (sample_world all_time_out)))
          = data (sample_world all_time_out)
        \<and> fst (async_set_alarm sample_const ''disarm'' (sample_world all_time_out))
          = Inl (HomeAssistantError [] (Some (DOMAIN sample_const)) (Some ''set_alarm'')
                (Some [(''name'', ''Yale Smart Alarm''),
                       (''error'', exc_str (PyException ''TimeoutError'' ''timed out''))]))"
    by blast
  then show ?thesis using h1 h2 h3 h4 by (simp add: sample_const_def)
qed

text \<open>
  Claim C4. Take any dispatch, whatever the command: if the vendor call it makes returns
  false without raising, the dispatcher raises the \<^verbatim>\<open>could_not_change_alarm\<close> error of the
  integration's domain, which carries no further detail, \<^verbatim>\<open>coordinator.data\<close> is as before
  the call and the platform is not asked to write the state.
\<close>

theorem vendor_rejection:
  assumes "vendor_calls (snd (async_set_alarm K command w)) = vendor_calls w @ [c]"
    and "invoke (yale w) c = Returned False"
  shows "fst (async_set_alarm K command w)
           = Inl (HomeAssistantError [] (Some (DOMAIN K)) (Some ''could_not_change_alarm'') None)
         \<and> data (snd (async_set_alarm K command w)) = data w
         \<and> ha_state_writes (snd (async_set_alarm K command w)) = ha_state_writes w"
proof -
  from assms(1) have "vendor_calls (snd (set_alarm_try K command w)) = vendor_calls w @ [c]"
    by (simp add: vendor_calls_set_alarm)
  from vendor_calls_try [OF this] assms(2)
  have "set_alarm_try K command w
          = (Inr (Some False), w\<lparr>vendor_calls := vendor_calls w @ [c]\<rparr>)"
    by simp
  then show ?thesis
    by (simp add: async_set_alarm_def)
qed

theorem vendor_rejection_witness:
  "vendor_calls (snd (async_set_alarm sample_const ''home'' (sample_world all_rejected)))
     = vendor_calls (sample_world all_rejected) @ [ArmPartial]
   \<and> invoke (yale (sample_world all_rejected)) ArmPartial = Returned False
   \<and> fst (async_set_alarm sample_const ''home'' (sample_world all_rejected))
       = Inl (HomeAssistantError [] (Some ''yale_smart_alarm'')
                (Some ''could_not_change_alarm'') None)
   \<and> data (snd (async_set_alarm sample_const ''home'' (sample_world all_rejected)))
       = data (sample_world all_rejected)"
proof -
  have h1: "vendor_calls (snd (async_set_alarm sample_const ''home''
                                 (sample_world all_rejected)))
              = vendor_calls (sample_world all_rejected) @ [ArmPartial]"
    by (simp add: sample_defs model_defs)
  have h2: "invoke (yale (sample_world all_rejected)) ArmPartial = Returned False"
    by (simp add: sample_defs)
  from vendor_rejection [OF h1 h2] h1 h2 show ?thesis
    by (simp add: sample_const_def)
qed

text \<open>
  Claim C5. \<open>async_alarm_arm_home\<close> and \<open>async_alarm_arm_away\<close> do the same whatever code they
  are given, no code, a wrong code or the stored one: the result is the one for no code,
  it is never the "Invalid code" error, and the operation hands one vendor call to the
  executor, \<^verbatim>\<open>arm_full\<close> for arm-away and, the partial-arm keyword differing from the
  full-arm keyword, \<^verbatim>\<open>arm_partial\<close> for arm-home.
\<close>

theorem arm_ignores_code:
  "async_alarm_arm_home K self code w = async_alarm_arm_home K self None w
   \<and> async_alarm_arm_away K self code w = async_alarm_arm_away K self None w
   \<and> fst (async_alarm_arm_home K self code w)
       \<noteq> Inl (HomeAssistantError [''Invalid code''] None None None)
   \<and> fst (async_alarm_arm_away K self code w)
       \<noteq> Inl (HomeAssistantError [''Invalid code''] None None None)
   \<and> vendor_calls (snd (async_alarm_arm_away K self code w)) = vendor_calls w @ [ArmFull]
   \<and> (YALE_STATE_ARM_PARTIAL K \<noteq> YALE_STATE_ARM_FULL K \<longrightarrow>
        vendor_calls (snd (async_alarm_arm_home K self code w)) = vendor_calls w @ [ArmPartial])"
proof -
  have away: "vendor_calls (snd (async_alarm_arm_away K self code w)) = vendor_calls w @ [ArmFull]"
    unfolding async_alarm_arm_away_def vendor_calls_set_alarm try_arm_full
    by (cases "arm_full (yale w)") simp_all
  have home: "vendor_calls (snd (async_alarm_arm_home K self code w))
                = vendor_calls w @ [ArmPartial]"
    if "YALE_STATE_ARM_PARTIAL K \<noteq> YALE_STATE_ARM_FULL K"
    unfolding async_alarm_arm_home_def vendor_calls_set_alarm try_arm_partial [OF that]
    by (cases "arm_partial (yale w)") simp_all
  show ?thesis
    using away home
    by (simp add: async_alarm_arm_home_def async_alarm_arm_away_def set_alarm_not_invalid_code)
qed

theorem arm_ignores_code_witness:
  "YALE_STATE_ARM_PARTIAL sample_const \<noteq> YALE_STATE_ARM_FULL sample_const
   \<and> vendor_calls (snd (async_alarm_arm_home sample_const sample_device (Some ''0000'')
                         (sample_world all_succeed))) = [ArmPartial]
   \<and> vendor_calls (snd (async_alarm_arm_away sample_const sample_device (Some ''0000'')
                         (sample_world all_succeed))) = [ArmFull]"
proof -
  have p: "YALE_STATE_ARM_PARTIAL sample_const \<noteq> YALE_STATE_ARM_FULL sample_const"
    by (simp add: sample_const_def)
  have e: "vendor_calls (sample_world all_succeed) = []"
    by (simp add: sample_world_def)
  from arm_ignores_code [of sample_const sample_device "Some ''0000''" "sample_world all_succeed"]
  have "vendor_calls (snd (async_alarm_arm_away sample_const sample_device (Some ''0000'')
                             (sample_world all_succeed)))
          = vendor_calls (sample_world all_succeed) @ [ArmFull]"
    and "vendor_calls (snd (async_alarm_arm_home sample_const sample_device (Some ''0000'')
                             (sample_world all_succeed)))
          = vendor_calls (sample_world all_succeed) @ [ArmPartial]"
    using p by blast+
  then show ?thesis using p by (simp add: e)
qed

section \<open>Properties\<close>

text \<open>
  Claim C6. When \<^verbatim>\<open>coordinator.data["alarm"]\<close> holds a keyword \<open>k\<close>, \<open>available\<close> returns the
  conjunction of "\<open>STATE_MAP\<close> has an entry for \<open>k\<close>" and what \<^verbatim>\<open>super().available\<close> answers.
  In particular it returns false for a keyword that \<open>STATE_MAP\<close> lacks, whatever the
  platform's own availability is.
\<close>

theorem available_iff:
  assumes "data w ''alarm'' = Some k"
  shows "available K w = Inr (STATE_MAP K k \<noteq> None \<and> super_available w)
         \<and> (STATE_MAP K k = None \<longrightarrow> available K w = Inr False)"
  using assms by (simp add: available_def)

theorem available_iff_witness:
  "data (sample_world all_succeed\<lparr>data := [''alarm'' \<mapsto> ''unknown'']\<rparr>) ''alarm''
     = Some ''unknown''
   \<and> STATE_MAP sample_const ''unknown'' = None
   \<and> super_available (sample_world all_succeed\<lparr>data := [''alarm'' \<mapsto> ''unknown'']\<rparr>)
   \<and> available sample_const (sample_world all_succeed\<lparr>data := [''alarm'' \<mapsto> ''unknown'']\<rparr>)
       = Inr False
   \<and> data (sample_world all_succeed) ''alarm'' = Some ''arm''
   \<and> available sample_const (sample_world all_succeed) = Inr True
   \<and> available sample_const (sample_world all_succeed\<lparr>super_available := False\<rparr>)
       = Inr False"
  using available_iff [of "sample_world all_succeed\<lparr>data := [''alarm'' \<mapsto> ''unknown'']\<rparr>"
                          "''unknown''" sample_const]
        available_iff [of "sample_world all_succeed" "''arm''" sample_const]
        available_iff [of "sample_world all_succeed\<lparr>super_available := False\<rparr>" "''arm''"
                          sample_const]
  by (simp add: sample_const_def sample_world_def)

text \<open>
  Claim C10. \<open>available\<close> and \<open>state\<close> index \<^verbatim>\<open>coordinator.data\<close> with the key
  \<^verbatim>\<open>"alarm"\<close>: when the dictionary has no such key, both raise \<open>KeyError\<close> for that key. Only
  when the key is there and holds a keyword that \<open>STATE_MAP\<close> lacks do they answer softly,
  \<open>available\<close> with false and \<open>state\<close> with \<^verbatim>\<open>None\<close>.
\<close>

theorem alarm_key_lookup:
  "(data w ''alarm'' = None \<longrightarrow>
      available K w = Inl (KeyError ''alarm'') \<and> state K w = Inl (KeyError ''alarm''))
   \<and> (data w ''alarm'' = Some k \<and> STATE_MAP K k = None \<longrightarrow>
      available K w = Inr False \<and> state K w = Inr None)"
  by (simp add: available_def state_def)

theorem alarm_key_lookup_witness:
  "data (sample_world all_succeed\<lparr>data := Map.empty\<rparr>) ''alarm'' = None
   \<and> available sample_const (sample_world all_succeed\<lparr>data := Map.empty\<rparr>)
       = Inl (KeyError ''alarm'')
   \<and> state sample_const (sample_world all_succeed\<lparr>data := Map.empty\<rparr>)
       = Inl (KeyError ''alarm'')
   \<and> data (sample_world all_succeed\<lparr>data := [''alarm'' \<mapsto> ''unknown'']\<rparr>) ''alarm''
       = Some ''unknown''
   \<and> STATE_MAP sample_const ''unknown'' = None
   \<and> available sample_const (sample_world all_succeed\<lparr>data := [''alarm'' \<mapsto> ''unknown'']\<rparr>)
       = Inr False
   \<and> state sample_const (sample_world all_succeed\<lparr>data := [''alarm'' \<mapsto> ''unknown'']\<rparr>)
       = Inr None"
  using alarm_key_lookup [of "sample_world all_succeed\<lparr>data := Map.empty\<rparr>" sample_const]
        alarm_key_lookup [of "sample_world all_succeed\<lparr>data := [''alarm'' \<mapsto> ''unknown'']\<rparr>"
                             sample_const "''unknown''"]
  by (simp add: sample_const_def sample_world_def)

text \<open>
  Claim C9. In \<open>async_set_alarm\<close> the variable \<^verbatim>\<open>alarm_state\<close> is left unassigned by the
  \<^verbatim>\<open>try\<close> statement exactly when the command is none of the three vendor keywords. For one
  of the three keywords the dispatcher never raises \<open>UnboundLocalError\<close>; for any other
  command it raises \<open>UnboundLocalError\<close> for \<^verbatim>\<open>alarm_state\<close>, having called nothing and
  changed nothing. The three public operations only pass one of the three keywords, so
  none of them raises it.
\<close>

theorem alarm_state_assigned:
  "(fst (set_alarm_try K command w) = Inr None
      \<longleftrightarrow> command \<notin> {YALE_STATE_ARM_FULL K, YALE_STATE_ARM_PARTIAL K, YALE_STATE_DISARM K})
   \<and> (command \<in> {YALE_STATE_ARM_FULL K, YALE_STATE_ARM_PARTIAL K, YALE_STATE_DISARM K} \<longrightarrow>
      fst (async_set_alarm K command w) \<noteq> Inl (UnboundLocalError ''alarm_state''))
   \<and> (command \<notin> {YALE_STATE_ARM_FULL K, YALE_STATE_ARM_PARTIAL K, YALE_STATE_DISARM K} \<longrightarrow>
      async_set_alarm K command w = (Inl (UnboundLocalError ''alarm_state''), w))
   \<and> fst (async_alarm_disarm K self code w) \<noteq> Inl (UnboundLocalError ''alarm_state'')
   \<and> fst (async_alarm_arm_home K self code w) \<noteq> Inl (UnboundLocalError ''alarm_state'')
   \<and> fst (async_alarm_arm_away K self code w) \<noteq> Inl (UnboundLocalError ''alarm_state'')"
proof (intro conjI impI)
  show "fst (set_alarm_try K command w) = Inr None
          \<longleftrightarrow> command \<notin> {YALE_STATE_ARM_FULL K, YALE_STATE_ARM_PARTIAL K, YALE_STATE_DISARM K}"
    by (rule try_unassigned_iff)
next
  assume "command \<in> {YALE_STATE_ARM_FULL K, YALE_STATE_ARM_PARTIAL K, YALE_STATE_DISARM K}"
  then show "fst (async_set_alarm K command w) \<noteq> Inl (UnboundLocalError ''alarm_state'')"
    by (simp only: set_alarm_unbound_iff try_unassigned_iff) simp
next
  assume "command \<notin> {YALE_STATE_ARM_FULL K, YALE_STATE_ARM_PARTIAL K, YALE_STATE_DISARM K}"
  then show "async_set_alarm K command w = (Inl (UnboundLocalError ''alarm_state''), w)"
    by (simp add: async_set_alarm_def set_alarm_try_def)
next
  show "fst (async_alarm_disarm K self code w) \<noteq> Inl (UnboundLocalError ''alarm_state'')"
    by (simp add: async_alarm_disarm_def async_validate_code_def
                  set_alarm_unbound_iff try_unassigned_iff)
next
  show "fst (async_alarm_arm_home K self code w) \<noteq> Inl (UnboundLocalError ''alarm_state'')"
    by (simp add: async_alarm_arm_home_def set_alarm_unbound_iff try_unassigned_iff)
next
  show "fst (async_alarm_arm_away K self code w) \<noteq> Inl (UnboundLocalError ''alarm_state'')"
    by (simp add: async_alarm_arm_away_def set_alarm_unbound_iff try_unassigned_iff)
qed

theorem alarm_state_assigned_witness:
  "''home'' \<in> {YALE_STATE_ARM_FULL sample_const, YALE_STATE_ARM_PARTIAL sample_const,
                YALE_STATE_DISARM sample_const}
   \<and> fst (async_set_alarm sample_const ''home'' (sample_world all_succeed))
       \<noteq> Inl (UnboundLocalError ''alarm_state'')
   \<and> ''night'' \<notin> {YALE_STATE_ARM_FULL sample_const, YALE_STATE_ARM_PARTIAL sample_const,
                    YALE_STATE_DISARM sample_const}
   \<and> async_set_alarm sample_const ''night'' (sample_world all_succeed)
       = (Inl (UnboundLocalError ''alarm_state''), sample_world all_succeed)"
proof -
  have a: "''home'' \<in> {YALE_STATE_ARM_FULL sample_const, YALE_STATE_ARM_PARTIAL sample_const,
                        YALE_STATE_DISARM sample_const}"
    by (simp add: sample_const_def)
  have b: "''night'' \<notin> {YALE_STATE_ARM_FULL sample_const, YALE_STATE_ARM_PARTIAL sample_const,
                          YALE_STATE_DISARM sample_const}"
    by (simp add: sample_const_def)
  from alarm_state_assigned [of sample_const "''home''" "sample_world all_succeed"] a
  have c: "fst (async_set_alarm sample_const ''home'' (sample_world all_succeed))
             \<noteq> Inl (UnboundLocalError ''alarm_state'')"
    by blast
  from alarm_state_assigned [of sample_const "''night''" "sample_world all_succeed"] b
  have d: "async_set_alarm sample_const ''night'' (sample_world all_succeed)
             = (Inl (UnboundLocalError ''alarm_state''), sample_world all_succeed)"
    by blast
  from a b c d show ?thesis by blast
qed

section \<open>Code format and capabilities\<close>

text \<open>
  Claim C7, as stated, says that \<open>code_format\<close> returns NUMBER whenever every character of
  the stored code is a digit, and TEXT otherwise. It fails on the empty code: every one of
  its characters is a digit, there being none, yet \<^verbatim>\<open>"".isdigit()\<close> is false and
  \<open>code_format\<close> returns TEXT.
\<close>

theorem code_format_empty_counterexample:
  "code_format \<lparr>attr_unique_id = ''entry1'', self_code = ''''\<rparr>
     \<noteq> (if consists_entirely_of_digits (self_code \<lparr>attr_unique_id = ''entry1'', self_code = ''''\<rparr>)
         then NUMBER else TEXT)"
  by (simp add: consists_entirely_of_digits_def code_format_def isdigit_def)

text \<open>
  Claim C7, amended. \<open>code_format\<close> is a function of the stored code alone, with no world
  to read or change. It returns NUMBER if the stored code is not empty and consists
  entirely of digits, and TEXT otherwise, so TEXT for the empty code: NUMBER for 1234,
  TEXT for abcd and for 12a4.
\<close>

theorem code_format_digits:
  "code_format self
     = (if self_code self \<noteq> [] \<and> consists_entirely_of_digits (self_code self)
        then NUMBER else TEXT)
   \<and> code_format (self\<lparr>self_code := ''1234''\<rparr>) = NUMBER
   \<and> code_format (self\<lparr>self_code := ''abcd''\<rparr>) = TEXT
   \<and> code_format (self\<lparr>self_code := ''12a4''\<rparr>) = TEXT"
  by (simp add: code_format_def isdigit_def consists_entirely_of_digits_def isdigit_char_def)

theorem code_format_digits_witness:
  "self_code sample_device \<noteq> []
   \<and> consists_entirely_of_digits (self_code sample_device)
   \<and> code_format sample_device = NUMBER
   \<and> code_format (sample_device\<lparr>self_code := ''''\<rparr>) = TEXT
   \<and> code_format (sample_device\<lparr>self_code := ''12a4''\<rparr>) = TEXT"
  using code_format_digits [of sample_device]
        code_format_digits [of "sample_device\<lparr>self_code := ''''\<rparr>"]
  by (simp add: sample_device_def consists_entirely_of_digits_def isdigit_char_def)

text \<open>
  Claim C8, as stated, says that disarming needs no code when only the default code is
  configured. It fails: an entity built from an entry that stores no code has the default
  code as its stored code, and disarming it without a code raises "Invalid code".
\<close>

theorem disarm_default_code_counterexample:
  "entry_data (sample_world all_succeed\<lparr>entry_data := [''name'' \<mapsto> ''Yale Smart Alarm'']\<rparr>)
     (CONF_CODE sample_const) = None
   \<and> self_code (YaleAlarmDevice_init sample_const
                  (sample_world all_succeed\<lparr>entry_data := [''name'' \<mapsto> ''Yale Smart Alarm'']\<rparr>))
       = DEFAULT_CODE sample_const
   \<and> fst (async_alarm_disarm sample_const
            (YaleAlarmDevice_init sample_const
               (sample_world all_succeed\<lparr>entry_data := [''name'' \<mapsto> ''Yale Smart Alarm'']\<rparr>))
            None
            (sample_world all_succeed\<lparr>entry_data := [''name'' \<mapsto> ''Yale Smart Alarm'']\<rparr>))
       = Inl (HomeAssistantError [''Invalid code''] None None None)"
  by (simp add: YaleAlarmDevice_init_def sample_const_def sample_world_def
                async_alarm_disarm_def async_validate_code_def)

text \<open>
  Claim C8, amended. The entity declares exactly the features arm-home and arm-away, and
  that no code is required to arm. Disarming requires a code in every configuration:
  \<open>async_alarm_disarm\<close> raises "Invalid code" exactly when the supplied code is not the
  stored code, whether that is a configured code or the default. In particular an entity
  built from an entry that stores no code has the default code as its stored code and
  still rejects a disarm without a code.
\<close>

theorem capabilities:
  "attr_supported_features = {ARM_HOME, ARM_AWAY}
   \<and> \<not> attr_code_arm_required
   \<and> (fst (async_alarm_disarm K self code w)
          = Inl (HomeAssistantError [''Invalid code''] None None None)
        \<longleftrightarrow> code \<noteq> Some (self_code self))
   \<and> (entry_data w0 (CONF_CODE K) = None \<longrightarrow>
        self_code (YaleAlarmDevice_init K w0) = DEFAULT_CODE K
        \<and> async_alarm_disarm K (YaleAlarmDevice_init K w0) None w
            = (Inl (HomeAssistantError [''Invalid code''] None None None), w))"
proof (intro conjI impI)
  show "attr_supported_features = {ARM_HOME, ARM_AWAY}"
    by (auto simp: attr_supported_features_def)
  show "\<not> attr_code_arm_required"
    by (simp add: attr_code_arm_required_def)
  show "fst (async_alarm_disarm K self code w)
          = Inl (HomeAssistantError [''Invalid code''] None None None)
        \<longleftrightarrow> code \<noteq> Some (self_code self)"
    by (simp add: async_alarm_disarm_def async_validate_code_def set_alarm_not_invalid_code)
  show "self_code (YaleAlarmDevice_init K w0) = DEFAULT_CODE K"
    if "entry_data w0 (CONF_CODE K) = None"
    using that by (simp add: YaleAlarmDevice_init_def)
  show "async_alarm_disarm K (YaleAlarmDevice_init K w0) None w
          = (Inl (HomeAssistantError [''Invalid code''] None None None), w)"
    by (simp add: async_alarm_disarm_def async_validate_code_def)
qed

theorem capabilities_witness:
  "entry_data (sample_world all_succeed\<lparr>entry_data := Map.empty\<rparr>) (CONF_CODE sample_const) = None
   \<and> self_code (YaleAlarmDevice_init sample_const
                  (sample_world all_succeed\<lparr>entry_data := Map.empty\<rparr>)) = ''1234''
   \<and> Some ''1234'' \<noteq> Some (self_code sample_device)
   \<and> fst (async_alarm_disarm sample_const sample_device (Some ''1234'')
            (sample_world all_succeed))
       = Inl (HomeAssistantError [''Invalid code''] None None None)
   \<and> ARM_NIGHT \<notin> attr_supported_features"
proof -
  have h: "entry_data (sample_world all_succeed\<lparr>entry_data := Map.empty\<rparr>)
             (CONF_CODE sample_const) = None"
    by (simp add: sample_world_def)
  have d: "DEFAULT_CODE sample_const = ''1234''"
    by (simp add: sample_const_def)
  have c: "Some ''1234'' \<noteq> Some (self_code sample_device)"
    by (simp add: sample_device_def)
  from capabilities [of sample_const sample_device "Some ''1234''" "sample_world all_succeed"
                        "sample_world all_succeed\<lparr>entry_data := Map.empty\<rparr>"] h c d
  show ?thesis by auto
qed

end
